theory Spec2Isabelle
  imports Main "HOL-Library.AList"
begin

section \<open>Alexandria: query translation, render pipeline and incremental index\<close>

text \<open>
  A shallow embedding of \<^verbatim>\<open>bleve.go\<close> and \<^verbatim>\<open>render.go\<close>. A Go \<^verbatim>\<open>string\<close> is a
  sequence of bytes and is modelled as \<^typ>\<open>string\<close>; a Go \<^verbatim>\<open>error\<close> is a value
  of the datatype \<open>error\<close> below, \<^verbatim>\<open>nil\<close> being \<^term>\<open>None\<close>; a run-time panic
  is the left summand of a result.
\<close>

subsection \<open>Panics\<close>

datatype panic =
    IndexOutOfRange      \<comment> \<open>\<^verbatim>\<open>s[i]\<close> with \<^verbatim>\<open>i >= len(s)\<close>\<close>
  | SliceOutOfRange      \<comment> \<open>\<^verbatim>\<open>s[i:j]\<close> outside the length or capacity\<close>
  | LogPanic string      \<comment> \<open>\<^verbatim>\<open>log.Panic\<close>, with the identifier it reports\<close>

subsection \<open>The pieces of package \<^verbatim>\<open>strings\<close> the code calls\<close>

text \<open>
  \<^verbatim>\<open>strings.Split(s, sep)\<close> for a separator of one byte: the pieces between the
  separators, in order; a string without separator (the empty string too) gives one piece.
\<close>

fun Split :: "string \<Rightarrow> char \<Rightarrow> string list" where
  "Split [] sep = [[]]"
| "Split (c # cs) sep =
     (if c = sep then [] # Split cs sep
      else (case Split cs sep of
              [] \<Rightarrow> [[c]]
            | w # ws \<Rightarrow> (c # w) # ws))"

text \<open>
  \<^verbatim>\<open>unicode.IsSpace\<close>, on the UTF-8 encoding: tab, line feed, vertical tab, form feed,
  carriage return, space, U+0085, U+00A0, U+1680, U+2000 to U+200A, U+2028, U+2029,
  U+202F, U+205F and U+3000.
\<close>

definition spaceEncodings :: "string list" where
  "spaceEncodings =
     [[CHR 0x09], [CHR 0x0A], [CHR 0x0B], [CHR 0x0C], [CHR 0x0D], [CHR 0x20],
      [CHR 0xC2, CHR 0x85], [CHR 0xC2, CHR 0xA0],
      [CHR 0xE1, CHR 0x9A, CHR 0x80],
      [CHR 0xE2, CHR 0x80, CHR 0x80], [CHR 0xE2, CHR 0x80, CHR 0x81],
      [CHR 0xE2, CHR 0x80, CHR 0x82], [CHR 0xE2, CHR 0x80, CHR 0x83],
      [CHR 0xE2, CHR 0x80, CHR 0x84], [CHR 0xE2, CHR 0x80, CHR 0x85],
      [CHR 0xE2, CHR 0x80, CHR 0x86], [CHR 0xE2, CHR 0x80, CHR 0x87],
      [CHR 0xE2, CHR 0x80, CHR 0x88], [CHR 0xE2, CHR 0x80, CHR 0x89],
      [CHR 0xE2, CHR 0x80, CHR 0x8A],
      [CHR 0xE2, CHR 0x80, CHR 0xA8], [CHR 0xE2, CHR 0x80, CHR 0xA9],
      [CHR 0xE2, CHR 0x80, CHR 0xAF],
      [CHR 0xE2, CHR 0x81, CHR 0x9F],
      [CHR 0xE3, CHR 0x80, CHR 0x80]]"

text \<open>The number of bytes of the white-space character \<open>s\<close> starts with (0: none).\<close>

definition leadingSpace :: "string list \<Rightarrow> string \<Rightarrow> nat" where
  "leadingSpace encs s =
     (case filter (\<lambda>e. take (length e) s = e) encs of
        [] \<Rightarrow> 0
      | e # _ \<Rightarrow> length e)"

fun trimLeft :: "string list \<Rightarrow> string \<Rightarrow> string" where
  "trimLeft encs [] = []"
| "trimLeft encs (c # cs) =
     (case leadingSpace encs (c # cs) of
        0 \<Rightarrow> c # cs
      | Suc n \<Rightarrow> trimLeft encs (drop n cs))"

text \<open>
  \<^verbatim>\<open>strings.TrimSpace\<close>: the leading white space is cut, then the trailing one (the
  same search on the reversed string, for the reversed encodings).
\<close>

definition TrimSpace :: "string \<Rightarrow> string" where
  "TrimSpace s =
     rev (trimLeft (map rev spaceEncodings) (rev (trimLeft spaceEncodings s)))"

subsection \<open>Query translation (\<^verbatim>\<open>bleve.go\<close>)\<close>

text \<open>
  The loop of \<^verbatim>\<open>translatePlusMinusTildePrefixes\<close> over the pieces of the query, with
  the string built so far. \<^verbatim>\<open>word[0]\<close> panics on an empty word.
\<close>

fun translateLoop :: "string list \<Rightarrow> string \<Rightarrow> panic + string" where
  "translateLoop [] newQueryString = Inr newQueryString"
| "translateLoop (tmp # rest) newQueryString =
     (case TrimSpace tmp of
        [] \<Rightarrow> Inl IndexOutOfRange
      | c # cs \<Rightarrow>
          if c = CHR ''-'' \<or> c = CHR ''+'' then
            translateLoop rest (newQueryString @ '' '' @ (c # cs))
          else if c = CHR ''~'' then
            translateLoop rest (newQueryString @ '' '' @ cs)
          else
            translateLoop rest (newQueryString @ '' +'' @ (c # cs)))"

definition translatePlusMinusTildePrefixes :: "string \<Rightarrow> panic + string" where
  "translatePlusMinusTildePrefixes queryString =
     (case translateLoop (Split queryString CHR '' '') [] of
        Inl p \<Rightarrow> Inl p
      | Inr newQueryString \<Rightarrow>
          (case newQueryString of
             [] \<Rightarrow> Inl SliceOutOfRange
           | _ # r \<Rightarrow> Inr r))"

text \<open>
  The rule the specification gives for one term, to compare the code with: \<open>+\<close> and
  \<open>-\<close> pass, \<open>~\<close> is stripped, anything else gains a \<open>+\<close>.
\<close>

definition prefixRule :: "string \<Rightarrow> string" where
  "prefixRule t =
     (case t of
        [] \<Rightarrow> ''+''
      | c # cs \<Rightarrow>
          if c = CHR ''-'' \<or> c = CHR ''+'' then t
          else if c = CHR ''~'' then cs
          else CHR ''+'' # t)"

fun joinWith :: "string \<Rightarrow> string list \<Rightarrow> string" where
  "joinWith sep [] = []"
| "joinWith sep [t] = t"
| "joinWith sep (t # u # ts) = t @ sep @ joinWith sep (u # ts)"

subsection \<open>Errors\<close>

text \<open>
  The values of Go's \<^verbatim>\<open>error\<close> the two files handle. \<open>ErrNoSuchScroll\<close> is the
  package variable of \<^verbatim>\<open>render.go\<close>, which the code compares by identity;
  \<open>NotExist\<close> is an error of the operating system for which \<^verbatim>\<open>os.IsNotExist\<close>
  holds; \<open>Failure\<close> is any other error, with its text; \<open>Wrapped\<close> is what
  \<^verbatim>\<open>errors.Wrap\<close> and \<^verbatim>\<open>errors.Wrapf\<close> build around a cause.
\<close>

datatype error =
    ErrNoSuchScroll
  | NotExist string
  | Failure string
  | Wrapped string error

text \<open>\<^verbatim>\<open>errors.Wrap(err, message)\<close>: \<^verbatim>\<open>nil\<close> for \<^verbatim>\<open>nil\<close>, a new error otherwise.\<close>

definition Wrap :: "error option \<Rightarrow> string \<Rightarrow> error option" where
  "Wrap e message = (case e of None \<Rightarrow> None | Some cause \<Rightarrow> Some (Wrapped message cause))"

fun IsNotExist :: "error option \<Rightarrow> bool" where
  "IsNotExist (Some (NotExist p)) = True"
| "IsNotExist e = False"

text \<open>\<^verbatim>\<open>err.Error()\<close>.\<close>

fun errorText :: "error \<Rightarrow> string" where
  "errorText ErrNoSuchScroll = ''No such scroll''"
| "errorText (NotExist p) = p @ '': no such file or directory''"
| "errorText (Failure s) = s"
| "errorText (Wrapped message cause) = message @ '': '' @ errorText cause"

subsection \<open>Documents, files, the index and the trace of operations\<close>

text \<open>
  The declaration of \<^verbatim>\<open>Scroll\<close> is not in the two files: these are the fields they
  read and write. \<^verbatim>\<open>Scroll{}\<close> has them all empty.
\<close>

record Scroll =
  ID :: string
  Type :: string
  Content :: string

definition zeroScroll :: Scroll where
  "zeroScroll = \<lparr>ID = [], Type = [], Content = []\<rparr>"

record sourceFile =
  content :: string
  modTime :: int        \<comment> \<open>seconds since the epoch, as \<^verbatim>\<open>getModTime\<close> reports them\<close>
  readable :: bool      \<comment> \<open>false for a directory or a file that cannot be opened\<close>

text \<open>
  A path is a directory of the configuration and a name in it:
  \<^verbatim>\<open>Config.KnowledgeDirectory + name\<close> and \<^verbatim>\<open>Config.AlexandriaDirectory + name\<close>.
\<close>

datatype path = Knowledge string | Alexandria string

fun pathName :: "path \<Rightarrow> string" where
  "pathName (Knowledge name) = name"
| "pathName (Alexandria name) = name"

text \<open>What the program does to the world outside, in the order it does it.\<close>

datatype event =
    EvOpenIndex
  | EvCreateIndex
  | EvIndexDelete string
  | EvCommitBatch
  | EvSearch string
  | EvStat path
  | EvChtimes path
  | EvReadDir
  | EvReadFile path
  | EvReadTemplate string
  | EvWriteTemp string
  | EvExec string string     \<comment> \<open>the program run and the identifier it is run on\<close>
  | EvGlob string
  | EvRemove string

datatype index_state =
    NoIndex                            \<comment> \<open>nothing at \<^verbatim>\<open>AlexandriaDirectory/bleve\<close>\<close>
  | Unopenable                         \<comment> \<open>a path that \<^verbatim>\<open>bleve.Open\<close> and \<^verbatim>\<open>bleve.New\<close> both refuse\<close>
  | Index "(string \<times> Scroll) list"      \<comment> \<open>an index: its documents by identifier\<close>

record world =
  knowledge :: "(string \<times> sourceFile) list option"
     \<comment> \<open>the files of the knowledge directory in the order \<^verbatim>\<open>ReadDir\<close> lists them;
         \<open>None\<close> when the directory cannot be listed\<close>
  templates :: "(string \<times> string) list"
  tempDir :: "(string \<times> string) list"
  tempWritable :: bool
  cacheDir :: "(string \<times> string) list"
  index :: index_state
  marker :: "int option"
     \<comment> \<open>the modification time of \<^verbatim>\<open>AlexandriaDirectory/index_updated\<close>, if the file exists\<close>
  now :: int
  logged :: "error list"
  trace :: "event list"

text \<open>
  What the code takes from outside the two files: the parser, the freshness policy, the two
  external programs (from the input file, if there is one, to their output, their error and
  what they write), \<^verbatim>\<open>filepath.Glob\<close> on the names of the temporary directory, bleve's
  verdict on a document put into a batch and on the batch, the search itself (the hits and
  the total for an index and a query) and the capacity \<^verbatim>\<open>append\<close> gives a slice it has to
  grow.
\<close>

record externals =
  parse :: "string \<Rightarrow> string \<Rightarrow> Scroll"
  isUpToDate :: "world \<Rightarrow> string \<Rightarrow> bool"
  xelatex :: "string option \<Rightarrow> string \<times> error option \<times> (string \<times> string) list"
  convert :: "string option \<Rightarrow> error option \<times> string option"
  Glob :: "string \<Rightarrow> string list \<Rightarrow> error + string list"
  batchIndexError :: "string \<Rightarrow> Scroll \<Rightarrow> error option"
  commitError :: "error option"
  search :: "(string \<times> Scroll) list \<Rightarrow> string \<Rightarrow> error + string list \<times> nat"
  growCap :: "nat \<Rightarrow> nat"

definition emit :: "event \<Rightarrow> world \<Rightarrow> world" where
  "emit e w = w\<lparr>trace := trace w @ [e]\<rparr>"

text \<open>
  Modelled from the spec: \<^verbatim>\<open>logError\<close> and \<^verbatim>\<open>tryLogError\<close> are not in the two
  files. A failure "is logged": \<^verbatim>\<open>logError\<close> adds the error to the log, and
  \<^verbatim>\<open>tryLogError\<close> does so for an error that is not \<^verbatim>\<open>nil\<close>.
\<close>

definition logError :: "error \<Rightarrow> world \<Rightarrow> world" where
  "logError e w = w\<lparr>logged := logged w @ [e]\<rparr>"

definition tryLogError :: "error option \<Rightarrow> world \<Rightarrow> world" where
  "tryLogError err w = (case err of None \<Rightarrow> w | Some e \<Rightarrow> logError e w)"

definition lookupKnowledge :: "world \<Rightarrow> string \<Rightarrow> sourceFile option" where
  "lookupKnowledge w name = (case knowledge w of None \<Rightarrow> None | Some fs \<Rightarrow> map_of fs name)"

text \<open>\<^verbatim>\<open>ioutil.ReadFile(Config.KnowledgeDirectory + name)\<close>.\<close>

definition ReadFile :: "string \<Rightarrow> world \<Rightarrow> string \<times> error option \<times> world" where
  "ReadFile name w =
     (let w1 = emit (EvReadFile (Knowledge name)) w in
      case lookupKnowledge w name of
        None \<Rightarrow> ([], Some (NotExist name), w1)
      | Some f \<Rightarrow>
          if readable f then (content f, None, w1)
          else ([], Some (Failure (name @ '': cannot be read'')), w1))"

text \<open>
  Modelled from the spec: \<^verbatim>\<open>readScroll\<close> is not in the two files. It "reads the
  document's source text", the file of the store named by the identifier
  (\<^verbatim>\<open>KnowledgeDirectory/<identifier>.tex\<close>), and fails with a not-exist error when "the
  source file is absent".
\<close>

definition readScroll :: "string \<Rightarrow> world \<Rightarrow> string \<times> error option \<times> world" where
  "readScroll ident w = ReadFile (ident @ ''.tex'') w"

definition statTime :: "world \<Rightarrow> path \<Rightarrow> int option" where
  "statTime w p =
     (case p of
        Knowledge name \<Rightarrow> map_option modTime (lookupKnowledge w name)
      | Alexandria name \<Rightarrow> if name = ''index_updated'' then marker w else None)"

text \<open>
  Modelled from the spec: \<^verbatim>\<open>getModTime\<close> is not in the two files. It gives the
  modification time of a file, and an error with the time 0 when the file cannot be read
  ("defaulting to epoch zero if unreadable"; the comment in \<^verbatim>\<open>updateIndex\<close>:
  "timeOfLastIndexUpdate will contain 0").
\<close>

definition getModTime :: "path \<Rightarrow> world \<Rightarrow> int \<times> error option \<times> world" where
  "getModTime p w =
     (let w1 = emit (EvStat p) w in
      case statTime w p of
        None \<Rightarrow> (0, Some (NotExist (pathName p)), w1)
      | Some t \<Rightarrow> (t, None, w1))"

text \<open>\<^verbatim>\<open>os.Stat(Config.KnowledgeDirectory + name)\<close>, of which the code reads the error.\<close>

definition Stat :: "string \<Rightarrow> world \<Rightarrow> error option \<times> world" where
  "Stat name w =
     (let w1 = emit (EvStat (Knowledge name)) w in
      case lookupKnowledge w name of
        None \<Rightarrow> (Some (NotExist name), w1)
      | Some f \<Rightarrow> (None, w1))"

text \<open>
  \<^verbatim>\<open>os.Chtimes(file, t, t)\<close> sets the times of a file that exists and fails on one that
  does not: it creates nothing.
\<close>

definition Chtimes :: "path \<Rightarrow> int \<Rightarrow> world \<Rightarrow> error option \<times> world" where
  "Chtimes p t w =
     (let w1 = emit (EvChtimes p) w in
      case statTime w p of
        None \<Rightarrow> (Some (NotExist (pathName p)), w1)
      | Some old \<Rightarrow>
          (case p of
             Alexandria name \<Rightarrow> (None, w1\<lparr>marker := Some t\<rparr>)
           | Knowledge name \<Rightarrow>
               (None, w1\<lparr>knowledge :=
                  map_option (map (\<lambda>(n, f). if n = name then (n, f\<lparr>modTime := t\<rparr>) else (n, f)))
                    (knowledge w1)\<rparr>)))"

text \<open>\<^verbatim>\<open>ioutil.ReadDir(Config.KnowledgeDirectory)\<close>, of which the code reads the names.\<close>

definition ReadDir :: "world \<Rightarrow> (error + string list) \<times> world" where
  "ReadDir w =
     (let w1 = emit EvReadDir w in
      case knowledge w of
        None \<Rightarrow> (Inl (NotExist ''KnowledgeDirectory''), w1)
      | Some fs \<Rightarrow> (Inr (map fst fs), w1))"

text \<open>\<^verbatim>\<open>strings.TrimSuffix\<close>.\<close>

definition TrimSuffix :: "string \<Rightarrow> string \<Rightarrow> string" where
  "TrimSuffix s suffix =
     (if length suffix \<le> length s \<and> drop (length s - length suffix) s = suffix
      then take (length s - length suffix) s else s)"

subsection \<open>The index handle (\<^verbatim>\<open>bleve.go\<close>)\<close>

text \<open>\<^verbatim>\<open>bleve.Open(Config.AlexandriaDirectory + "bleve")\<close>: the error, if any.\<close>

definition openExistingIndex :: "world \<Rightarrow> error option \<times> world" where
  "openExistingIndex w =
     (let w1 = emit EvOpenIndex w in
      case index w of
        Index m \<Rightarrow> (None, w1)
      | NoIndex \<Rightarrow> (Some (Failure ''cannot open index, path does not exist''), w1)
      | Unopenable \<Rightarrow> (Some (Failure ''cannot open index''), w1))"

text \<open>\<^verbatim>\<open>index.Delete(id)\<close>, which refuses the empty identifier.\<close>

definition indexDelete :: "string \<Rightarrow> world \<Rightarrow> error option \<times> world" where
  "indexDelete ident w =
     (let w1 = emit (EvIndexDelete ident) w in
      case index w of
        Index m \<Rightarrow>
          if ident = [] then (Some (Failure ''document ID cannot be empty''), w1)
          else (None, w1\<lparr>index := Index (AList.delete ident m)\<rparr>)
      | NoIndex \<Rightarrow> (Some (Failure ''index is closed''), w1)
      | Unopenable \<Rightarrow> (Some (Failure ''index is closed''), w1))"

definition removeFromIndex :: "string \<Rightarrow> world \<Rightarrow> error option \<times> world" where
  "removeFromIndex ident w =
     (let (err, w1) = openExistingIndex w in
      if err \<noteq> None then (err, w1)
      else indexDelete ident w1)"

subsection \<open>The render pipeline (\<^verbatim>\<open>render.go\<close>)\<close>

record errTemplateReader =
  doc :: string
  readerErr :: "error option"    \<comment> \<open>the field \<^verbatim>\<open>err\<close>\<close>

text \<open>
  Modelled from the spec: the function \<^verbatim>\<open>readTemplate\<close> is not in the two files. It
  reads a template by name; a "template read failure" is that of a file that is missing.
\<close>

definition readTemplate :: "string \<Rightarrow> world \<Rightarrow> string \<times> error option \<times> world" where
  "readTemplate name w =
     (let w1 = emit (EvReadTemplate name) w in
      case map_of (templates w) name of
        None \<Rightarrow> ([], Some (NotExist name), w1)
      | Some t \<Rightarrow> (t, None, w1))"

text \<open>The method \<^verbatim>\<open>(e *errTemplateReader) readTemplate\<close>; its receiver is a pointer.\<close>

definition errTemplateReader_readTemplate ::
  "string \<Rightarrow> errTemplateReader \<Rightarrow> world \<Rightarrow> errTemplateReader \<times> world" where
  "errTemplateReader_readTemplate name e w =
     (if readerErr e \<noteq> None then (e, w)
      else
        let (tmp, err, w1) = readTemplate name w in
        (e\<lparr>readerErr := Wrap err (''read template '' @ name), doc := doc e @ tmp\<rparr>, w1))"

text \<open>
  Modelled from the spec: \<^verbatim>\<open>writeTemp\<close> is not in the two files. It "writes the result
  to a temporary working area", as \<^verbatim>\<open>TempDirectory/<identifier>.tex\<close>.
\<close>

definition writeTemp :: "string \<Rightarrow> string \<Rightarrow> world \<Rightarrow> error option \<times> world" where
  "writeTemp ident d w =
     (let w1 = emit (EvWriteTemp (ident @ ''.tex'')) w in
      if tempWritable w then
        (None, w1\<lparr>tempDir := AList.update (ident @ ''.tex'') d (tempDir w1)\<rparr>)
      else (Some (Failure ''cannot write to the temporary directory''), w1))"

text \<open>
  \<^verbatim>\<open>exec.Command("xelatex", ...).CombinedOutput()\<close>: the program reads
  \<^verbatim>\<open>TempDirectory/<identifier>\<close> and writes beside it.
\<close>

definition runXelatex :: "externals \<Rightarrow> string \<Rightarrow> world \<Rightarrow> string \<times> error option \<times> world" where
  "runXelatex ext ident w =
     (let (msg, err, written) = xelatex ext (map_of (tempDir w) (ident @ ''.tex''));
          w1 = emit (EvExec ''xelatex'' ident) w
      in (msg, err,
          w1\<lparr>tempDir := fold (\<lambda>(suffix, c). AList.update (ident @ suffix) c) written (tempDir w1)\<rparr>))"

text \<open>\<^verbatim>\<open>exec.Command("convert", ...).Run()\<close>, from the PDF to the PNG of the cache.\<close>

definition runConvert :: "externals \<Rightarrow> string \<Rightarrow> world \<Rightarrow> error option \<times> world" where
  "runConvert ext ident w =
     (let (err, png) = convert ext (map_of (tempDir w) (ident @ ''.pdf''));
          w1 = emit (EvExec ''convert'' ident) w
      in (err,
          case png of
            None \<Rightarrow> w1
          | Some p \<Rightarrow> w1\<lparr>cacheDir := AList.update (ident @ ''.png'') p (cacheDir w1)\<rparr>))"

text \<open>\<^verbatim>\<open>os.Remove\<close> of a file of the temporary directory.\<close>

definition Remove :: "string \<Rightarrow> world \<Rightarrow> error option \<times> world" where
  "Remove name w =
     (let w1 = emit (EvRemove name) w in
      if map_of (tempDir w) name \<noteq> None then
        (None, w1\<lparr>tempDir := AList.delete name (tempDir w1)\<rparr>)
      else (Some (NotExist name), w1))"

record xelatexImagemagickRenderer =
  error :: "error option"

text \<open>
  The bodies of the four methods of \<^verbatim>\<open>xelatexImagemagickRenderer\<close>: each takes the
  receiver \<open>x\<close> and returns it as the body leaves it.
\<close>

definition scrollToLatex_impl ::
  "externals \<Rightarrow> string \<Rightarrow> xelatexImagemagickRenderer \<Rightarrow> world \<Rightarrow> xelatexImagemagickRenderer \<times> world" where
  "scrollToLatex_impl ext ident x w =
     (let (scrollText, err, w1) = readScroll ident w in
      if err \<noteq> None then
        if IsNotExist err then
          let (err', w2) = removeFromIndex ident w1;
              w3 = (case err' of None \<Rightarrow> w2 | Some e \<Rightarrow> logError e w2)
          in (x\<lparr>error := Some ErrNoSuchScroll\<rparr>, w3)
        else (x\<lparr>error := err\<rparr>, w1)
      else
        let scroll = parse ext ident scrollText;
            e = \<lparr>doc = [], readerErr = None\<rparr>;
            (e, w2) = errTemplateReader_readTemplate ''header'' e w1;
            (e, w3) = errTemplateReader_readTemplate (Type scroll @ ''_header'') e w2;
            e = e\<lparr>doc := doc e @ Content scroll\<rparr>;
            (e, w4) = errTemplateReader_readTemplate (Type scroll @ ''_footer'') e w3;
            (e, w5) = errTemplateReader_readTemplate ''footer'' e w4
        in
          if readerErr e \<noteq> None then
            (x\<lparr>error := Wrap (readerErr e) (''producing latex file for scroll '' @ ident)\<rparr>, w5)
          else
            let (err, w6) = writeTemp ident (doc e) w5 in
            (x\<lparr>error :=
                 Wrap err (''writing latex file '' @ ident @ ''.tex to temporary directory'')\<rparr>,
             w6))"

definition latexToPdf_impl ::
  "externals \<Rightarrow> string \<Rightarrow> xelatexImagemagickRenderer \<Rightarrow> world \<Rightarrow> xelatexImagemagickRenderer \<times> world" where
  "latexToPdf_impl ext ident x w =
     (if error x \<noteq> None then (x, w)
      else
        let (msg, err, w1) = runXelatex ext ident w in
        (x\<lparr>error := Wrap err (''XeLaTeX build: '' @ msg)\<rparr>, w1))"

definition pdfToPng_impl ::
  "externals \<Rightarrow> string \<Rightarrow> xelatexImagemagickRenderer \<Rightarrow> world \<Rightarrow> xelatexImagemagickRenderer \<times> world" where
  "pdfToPng_impl ext i x w =
     (if error x \<noteq> None then (x, w)
      else
        let (err, w1) = runConvert ext i w in
        (x\<lparr>error := err\<rparr>, w1))"

fun removeFiles :: "string list \<Rightarrow> world \<Rightarrow> world" where
  "removeFiles [] w = w"
| "removeFiles (f # files) w =
     (let (err, w1) = Remove f w in removeFiles files (tryLogError err w1))"

definition deleteTemporaryFiles_impl ::
  "externals \<Rightarrow> string \<Rightarrow> xelatexImagemagickRenderer \<Rightarrow> world \<Rightarrow> xelatexImagemagickRenderer \<times> world" where
  "deleteTemporaryFiles_impl ext ident x w =
     (let w1 = emit (EvGlob (ident @ ''.*'')) w in
      case Glob ext (ident @ ''.*'') (map fst (tempDir w)) of
        Inl e \<Rightarrow> (x, logError e w1)
      | Inr files \<Rightarrow> (x, removeFiles files w1))"

text \<open>
  The interface \<^verbatim>\<open>latexToPngRenderer\<close>: a renderer is a state with the four stages and
  the query of its error.
\<close>

record 'r latexToPngRenderer =
  scrollToLatex :: "string \<Rightarrow> 'r \<Rightarrow> world \<Rightarrow> 'r \<times> world"
  latexToPdf :: "string \<Rightarrow> 'r \<Rightarrow> world \<Rightarrow> 'r \<times> world"
  pdfToPng :: "string \<Rightarrow> 'r \<Rightarrow> world \<Rightarrow> 'r \<times> world"
  deleteTemporaryFiles :: "string \<Rightarrow> 'r \<Rightarrow> world \<Rightarrow> 'r \<times> world"
  err :: "'r \<Rightarrow> error option"

text \<open>
  A method declared on the value type, \<^verbatim>\<open>func (x xelatexImagemagickRenderer) ...\<close>, gets
  a copy of the renderer: what the body assigns to \<^verbatim>\<open>x.error\<close> is gone when it returns,
  and the renderer of the caller is as before. A method declared on the pointer type keeps
  what its body assigns.
\<close>

definition valueReceiver ::
  "(string \<Rightarrow> 'r \<Rightarrow> world \<Rightarrow> 'r \<times> world) \<Rightarrow> string \<Rightarrow> 'r \<Rightarrow> world \<Rightarrow> 'r \<times> world" where
  "valueReceiver method ident x w = (x, snd (method ident x w))"

definition pointerReceiver ::
  "(string \<Rightarrow> 'r \<Rightarrow> world \<Rightarrow> 'r \<times> world) \<Rightarrow> string \<Rightarrow> 'r \<Rightarrow> world \<Rightarrow> 'r \<times> world" where
  "pointerReceiver method ident x w = method ident x w"

text \<open>The renderer of \<^verbatim>\<open>render.go\<close>: all five methods are declared on the value type.\<close>

definition xelatexImagemagick :: "externals \<Rightarrow> xelatexImagemagickRenderer latexToPngRenderer" where
  "xelatexImagemagick ext =
     \<lparr>scrollToLatex = valueReceiver (scrollToLatex_impl ext),
      latexToPdf = valueReceiver (latexToPdf_impl ext),
      pdfToPng = valueReceiver (pdfToPng_impl ext),
      deleteTemporaryFiles = valueReceiver (deleteTemporaryFiles_impl ext),
      err = error\<rparr>"

text \<open>
  The same bodies declared on the pointer type: a renderer the interface admits as well,
  and the one whose stages see the error of an earlier stage.
\<close>

definition pointerRenderer :: "externals \<Rightarrow> xelatexImagemagickRenderer latexToPngRenderer" where
  "pointerRenderer ext =
     \<lparr>scrollToLatex = pointerReceiver (scrollToLatex_impl ext),
      latexToPdf = pointerReceiver (latexToPdf_impl ext),
      pdfToPng = pointerReceiver (pdfToPng_impl ext),
      deleteTemporaryFiles = pointerReceiver (deleteTemporaryFiles_impl ext),
      err = error\<rparr>"

definition renderScroll ::
  "externals \<Rightarrow> 'r latexToPngRenderer \<Rightarrow> string \<Rightarrow> 'r \<Rightarrow> world \<Rightarrow> error option \<times> 'r \<times> world" where
  "renderScroll ext renderer ident r w =
     (if isUpToDate ext w ident then (None, r, w)
      else
        let (r1, w1) = scrollToLatex renderer ident r w;
            (r2, w2) = latexToPdf renderer ident r1 w1;
            (r3, w3) = pdfToPng renderer ident r2 w2;
            (r4, w4) = deleteTemporaryFiles renderer ident r3 w3
        in (Wrap (err renderer r4) ''rendering'', r4, w4))"

text \<open>
  The loop of \<^verbatim>\<open>renderListOfScrolls\<close>, with the count so far. \<^verbatim>\<open>err == ErrNoSuchScroll\<close>
  compares with the package variable itself.
\<close>

fun renderLoop ::
  "externals \<Rightarrow> 'r latexToPngRenderer \<Rightarrow> Scroll list \<Rightarrow> nat \<Rightarrow> 'r \<Rightarrow> world
     \<Rightarrow> (panic + nat) \<times> 'r \<times> world" where
  "renderLoop ext renderer [] numScrolls r w = (Inr numScrolls, r, w)"
| "renderLoop ext renderer (foo # rest) numScrolls r w =
     (let (e, r1, w1) = renderScroll ext renderer (ID foo) r w in
      case e of
        Some e' \<Rightarrow>
          if e' = ErrNoSuchScroll then renderLoop ext renderer rest numScrolls r1 w1
          else (Inl (LogPanic (ID foo)), r1, w1)
      | None \<Rightarrow> renderLoop ext renderer rest (Suc numScrolls) r1 w1)"

definition renderListOfScrolls ::
  "externals \<Rightarrow> 'r latexToPngRenderer \<Rightarrow> Scroll list \<Rightarrow> 'r \<Rightarrow> world
     \<Rightarrow> (panic + nat) \<times> 'r \<times> world" where
  "renderListOfScrolls ext renderer ids r w = renderLoop ext renderer ids 0 r w"

subsection \<open>The incremental index (\<^verbatim>\<open>bleve.go\<close>)\<close>

text \<open>\<^verbatim>\<open>bleve.New\<close> creates an index where there is none and fails on a path that exists.\<close>

definition createNewIndex :: "world \<Rightarrow> error option \<times> world" where
  "createNewIndex w =
     (let w1 = emit EvCreateIndex w in
      case index w of
        NoIndex \<Rightarrow> (None, w1\<lparr>index := Index []\<rparr>)
      | Unopenable \<Rightarrow> (Some (Failure ''cannot create new index, path already exists''), w1)
      | Index m \<Rightarrow> (Some (Failure ''cannot create new index, path already exists''), w1))"

definition openOrCreateIndex :: "world \<Rightarrow> bool \<times> error option \<times> world" where
  "openOrCreateIndex w =
     (let (e, w1) = openExistingIndex w in
      if e \<noteq> None then
        let (e', w2) = createNewIndex w1 in (True, e', w2)
      else (False, e, w1))"

definition indexUpdateFile :: path where
  "indexUpdateFile = Alexandria ''index_updated''"

definition touch :: "path \<Rightarrow> world \<Rightarrow> error option \<times> world" where
  "touch f w = Chtimes f (now w) w"

definition recordIndexUpdateStart :: "path \<Rightarrow> world \<Rightarrow> world" where
  "recordIndexUpdateStart f w = (let (e, w1) = touch f w in tryLogError e w1)"

definition isOlderThan :: "string \<Rightarrow> int \<Rightarrow> world \<Rightarrow> bool \<times> world" where
  "isOlderThan f indexUpdateTime w =
     (let (mt, e, w1) = getModTime (Knowledge f) w in
      case e of
        Some e' \<Rightarrow> (True, logError e' w1)
      | None \<Rightarrow> (mt < indexUpdateTime, w1))"

definition loadAndParseScrollContent ::
  "externals \<Rightarrow> string \<Rightarrow> string \<Rightarrow> world \<Rightarrow> Scroll \<times> error option \<times> world" where
  "loadAndParseScrollContent ext ident f w =
     (let (contentBytes, e, w1) = ReadFile f w;
          w2 = tryLogError e w1;
          scroll = parse ext ident contentBytes
      in (scroll, e, w2))"

definition loadAndParseScrollContentByID ::
  "externals \<Rightarrow> string \<Rightarrow> world \<Rightarrow> Scroll \<times> error option \<times> world" where
  "loadAndParseScrollContentByID ext ident w =
     (let (c, e, w1) = readScroll ident w in
      if e \<noteq> None then (zeroScroll, e, w1)
      else (parse ext ident c, None, w1))"

text \<open>
  The loop of \<^verbatim>\<open>updateIndex\<close> over the files of the directory, with the batch so far
  (the documents staged, in order). \<^verbatim>\<open>isOlderThan\<close> is not called on a new index.
\<close>

fun indexFiles ::
  "externals \<Rightarrow> bool \<Rightarrow> int \<Rightarrow> string list \<Rightarrow> (string \<times> Scroll) list \<Rightarrow> world
     \<Rightarrow> (string \<times> Scroll) list \<times> world" where
  "indexFiles ext isNewIndex t [] batch w = (batch, w)"
| "indexFiles ext isNewIndex t (f # files) batch w =
     (let (older, w1) = (if \<not> isNewIndex then isOlderThan f t w else (False, w)) in
      if older then indexFiles ext isNewIndex t files batch w1
      else
        let ident = TrimSuffix f ''.tex'';
            (scroll, e, w2) = loadAndParseScrollContent ext ident f w1
        in
          case e of
            Some e' \<Rightarrow> indexFiles ext isNewIndex t files batch (logError e' w2)
          | None \<Rightarrow>
              (case batchIndexError ext ident scroll of
                 Some e' \<Rightarrow> indexFiles ext isNewIndex t files batch (logError e' w2)
               | None \<Rightarrow> indexFiles ext isNewIndex t files (batch @ [(ident, scroll)]) w2))"

text \<open>\<^verbatim>\<open>index.Batch(batch)\<close>: all the staged documents are written, or none.\<close>

definition Batch :: "externals \<Rightarrow> (string \<times> Scroll) list \<Rightarrow> world \<Rightarrow> error option \<times> world" where
  "Batch ext batch w =
     (let w1 = emit EvCommitBatch w in
      case commitError ext of
        Some e \<Rightarrow> (Some e, w1)
      | None \<Rightarrow>
          (case index w of
             Index m \<Rightarrow> (None, w1\<lparr>index := Index (fold (\<lambda>(i, s). AList.update i s) batch m)\<rparr>)
           | NoIndex \<Rightarrow> (Some (Failure ''index is closed''), w1)
           | Unopenable \<Rightarrow> (Some (Failure ''index is closed''), w1)))"

definition updateIndex :: "externals \<Rightarrow> world \<Rightarrow> error option \<times> world" where
  "updateIndex ext w =
     (let (isNewIndex, e, w1) = openOrCreateIndex w in
      case e of
        Some e' \<Rightarrow> (Some (Wrapped ''open or create index'' e'), w1)
      | None \<Rightarrow>
          let (timeOfLastIndexUpdate, e, w2) = getModTime indexUpdateFile w1;
              w3 = tryLogError e w2;
              w4 = recordIndexUpdateStart indexUpdateFile w3;
              (files, w5) = ReadDir w4
          in
            case files of
              Inl e' \<Rightarrow> (Some (Wrapped ''read knowledge directory'' e'), w5)
            | Inr names \<Rightarrow>
                let (batch, w6) = indexFiles ext isNewIndex timeOfLastIndexUpdate names [] w5
                in Batch ext batch w6)"

subsection \<open>Search (\<^verbatim>\<open>bleve.go\<close>)\<close>

text \<open>
  The declaration of \<^verbatim>\<open>Results\<close> is not in the two files: the list of documents and
  the total, in the order of the composite literal of \<^verbatim>\<open>searchBleve\<close>.
\<close>

record Results =
  IDs :: "Scroll list"
  Total :: nat

definition emptyResults :: Results where
  "emptyResults = \<lparr>IDs = [], Total = 0\<rparr>"

text \<open>
  A slice built by \<^verbatim>\<open>append\<close> from \<^verbatim>\<open>nil\<close>: its elements and its capacity. The array
  behind it is zero between the length and the capacity.
\<close>

definition appendSlice :: "externals \<Rightarrow> Scroll list \<times> nat \<Rightarrow> Scroll \<Rightarrow> Scroll list \<times> nat" where
  "appendSlice ext s x =
     (case s of (xs, c) \<Rightarrow>
        if length xs < c then (xs @ [x], c)
        else (xs @ [x], max (Suc (length xs)) (growCap ext c)))"

text \<open>\<^verbatim>\<open>s[:n]\<close> panics when \<open>n\<close> is beyond the capacity.\<close>

definition reslice :: "Scroll list \<times> nat \<Rightarrow> nat \<Rightarrow> panic + Scroll list" where
  "reslice s n =
     (case s of (xs, c) \<Rightarrow>
        if n \<le> c then Inr (take n (xs @ replicate (c - length xs) zeroScroll))
        else Inl SliceOutOfRange)"

definition performQuery ::
  "externals \<Rightarrow> string \<Rightarrow> world \<Rightarrow> (error + string list \<times> nat) \<times> world" where
  "performQuery ext newQueryString w =
     (let w1 = emit (EvSearch newQueryString) w in
      case index w of
        Index m \<Rightarrow> (search ext m newQueryString, w1)
      | NoIndex \<Rightarrow> (Inl (Failure ''index is closed''), w1)
      | Unopenable \<Rightarrow> (Inl (Failure ''index is closed''), w1))"

fun loadMatchingScrolls ::
  "externals \<Rightarrow> string list \<Rightarrow> Scroll list \<times> nat \<Rightarrow> world \<Rightarrow> (Scroll list \<times> nat) \<times> world" where
  "loadMatchingScrolls ext [] scrolls w = (scrolls, w)"
| "loadMatchingScrolls ext (m # hits) scrolls w =
     (let (scroll, e, w1) = loadAndParseScrollContentByID ext m w in
      case e of
        Some e' \<Rightarrow> loadMatchingScrolls ext hits scrolls (logError e' w1)
      | None \<Rightarrow> loadMatchingScrolls ext hits (appendSlice ext scrolls scroll) w1)"

text \<open>
  \<^verbatim>\<open>searchBleve\<close>. The line written for a query the parser refuses is kept in the log as
  a \<open>Failure\<close>.
\<close>

definition searchBleve ::
  "externals \<Rightarrow> string \<Rightarrow> world \<Rightarrow> (panic + Results \<times> error option) \<times> world" where
  "searchBleve ext queryString w =
     (let (e, w1) = openExistingIndex w in
      case e of
        Some e' \<Rightarrow> (Inr (emptyResults, Some e'), logError e' w1)
      | None \<Rightarrow>
          (case translatePlusMinusTildePrefixes queryString of
             Inl p \<Rightarrow> (Inl p, w1)
           | Inr newQueryString \<Rightarrow>
               let (searchResults, w2) = performQuery ext newQueryString w1 in
               (case searchResults of
                  Inl e' \<Rightarrow>
                    if errorText e' = ''syntax error'' then
                      (Inr (emptyResults, None),
                       logError (Failure (''Invalid query string: '' @ newQueryString)) w2)
                    else (Inr (emptyResults, Some e'), w2)
                | Inr (hits, hitCount) \<Rightarrow>
                    let (scrolls, w3) = loadMatchingScrolls ext hits ([], 0) w2 in
                    (case reslice scrolls (length hits) of
                       Inl p \<Rightarrow> (Inl p, w3)
                     | Inr ids \<Rightarrow> (Inr (\<lparr>IDs = ids, Total = hitCount\<rparr>, None), w3)))))"

text \<open>
  The second loop of \<^verbatim>\<open>findScrolls\<close>: it fills the local slice \<^verbatim>\<open>ids\<close> (of length
  \<open>n\<close>) with the hits whose file exists; \<^verbatim>\<open>ids[i]\<close> panics beyond the length.
\<close>

fun fillIds :: "Scroll list \<Rightarrow> Scroll list \<Rightarrow> nat \<Rightarrow> world \<Rightarrow> (panic + Scroll list) \<times> world" where
  "fillIds [] ids i w = (Inr ids, w)"
| "fillIds (s # rest) ids i w =
     (let (e, w1) = Stat (ID s @ ''.tex'') w in
      if IsNotExist e then fillIds rest ids i w1
      else if i < length ids then
        fillIds rest (ids[i := \<lparr>ID = ID s, Type = [], Content = []\<rparr>]) (Suc i) w1
      else (Inl IndexOutOfRange, w1))"

definition findScrolls ::
  "externals \<Rightarrow> string \<Rightarrow> world \<Rightarrow> (panic + Results \<times> error option) \<times> world" where
  "findScrolls ext query w =
     (let (found, w1) = searchBleve ext query w in
      case found of
        Inl p \<Rightarrow> (Inl p, w1)
      | Inr (results, e) \<Rightarrow>
          if e \<noteq> None then (Inr (emptyResults, e), w1)
          else
            let x = \<lparr>error = None\<rparr>;
                (counted, x', w2) = renderListOfScrolls ext (xelatexImagemagick ext) (IDs results) x w1
            in
              case counted of
                Inl p \<Rightarrow> (Inl p, w2)
              | Inr n \<Rightarrow>
                  let (filled, w3) = fillIds (IDs results) (replicate n zeroScroll) 0 w2 in
                  (case filled of
                     Inl p \<Rightarrow> (Inl p, w3)
                   | Inr ids \<Rightarrow> (Inr (results\<lparr>Total := n\<rparr>, None), w3)))"

subsection \<open>What the specification says of one document of an update, to compare the code with\<close>

text \<open>
  The cutoff of an update: the marker as it is before the update, zero when there is none.
\<close>

definition cutoff :: "world \<Rightarrow> int" where
  "cutoff w = (case marker w of None \<Rightarrow> 0 | Some t \<Rightarrow> t)"

text \<open>
  A document is passed over when the index is not new and the file is older than the
  cutoff (or cannot be examined).
\<close>

definition skipped :: "(string \<Rightarrow> sourceFile option) \<Rightarrow> bool \<Rightarrow> int \<Rightarrow> string \<Rightarrow> bool" where
  "skipped look isNewIndex t name =
     (\<not> isNewIndex \<and> (case look name of None \<Rightarrow> True | Some f \<Rightarrow> modTime f < t))"

text \<open>What a document adds to the batch: itself, parsed, unless it is passed over or fails.\<close>

definition stagedDoc ::
  "externals \<Rightarrow> (string \<Rightarrow> sourceFile option) \<Rightarrow> bool \<Rightarrow> int \<Rightarrow> string \<Rightarrow> (string \<times> Scroll) list" where
  "stagedDoc ext look isNewIndex t name =
     (if skipped look isNewIndex t name then []
      else
        case look name of
          None \<Rightarrow> []
        | Some f \<Rightarrow>
            if \<not> readable f then []
            else
              let ident = TrimSuffix name ''.tex''; scroll = parse ext ident (content f) in
              if batchIndexError ext ident scroll = None then [(ident, scroll)] else [])"

text \<open>What a document adds to the log: the errors of examining, reading and staging it.\<close>

definition docLog ::
  "externals \<Rightarrow> (string \<Rightarrow> sourceFile option) \<Rightarrow> bool \<Rightarrow> int \<Rightarrow> string \<Rightarrow> error list" where
  "docLog ext look isNewIndex t name =
     (case look name of
        None \<Rightarrow> if isNewIndex then [NotExist name, NotExist name] else [NotExist name]
      | Some f \<Rightarrow>
          if skipped look isNewIndex t name then []
          else if \<not> readable f then
            [Failure (name @ '': cannot be read''), Failure (name @ '': cannot be read'')]
          else
            let ident = TrimSuffix name ''.tex'' in
            (case batchIndexError ext ident (parse ext ident (content f)) of
               None \<Rightarrow> []
             | Some e \<Rightarrow> [e]))"

text \<open>What is done to a document: it is examined on an index that is not new, and read
  unless it is passed over.\<close>

definition docTrace :: "(string \<Rightarrow> sourceFile option) \<Rightarrow> bool \<Rightarrow> int \<Rightarrow> string \<Rightarrow> event list" where
  "docTrace look isNewIndex t name =
     (if isNewIndex then [] else [EvStat (Knowledge name)]) @
     (if skipped look isNewIndex t name then [] else [EvReadFile (Knowledge name)])"

text \<open>The documents of the index before the update (none when it is created by it).\<close>

definition docs :: "world \<Rightarrow> (string \<times> Scroll) list" where
  "docs w = (case index w of Index m \<Rightarrow> m | NoIndex \<Rightarrow> [] | Unopenable \<Rightarrow> [])"

definition openTrace :: "world \<Rightarrow> event list" where
  "openTrace w = (if index w = NoIndex then [EvOpenIndex, EvCreateIndex] else [EvOpenIndex])"

definition markerLog :: "world \<Rightarrow> error list" where
  "markerLog w =
     (if marker w = None then [NotExist ''index_updated'', NotExist ''index_updated''] else [])"

text \<open>
  An update that opens or creates the index, by the words of the specification: the result
  and the world it leaves. The marker is read, then touched, then the directory is listed;
  each document adds to the batch, the log and the trace what is said above; the batch is
  committed at the end.
\<close>

definition afterUpdate :: "externals \<Rightarrow> world \<Rightarrow> error option \<times> world" where
  "afterUpdate ext w =
     (let isNew = (index w = NoIndex); look = lookupKnowledge w; t = cutoff w;
          w4 = w\<lparr>index := Index (docs w),
                 marker := (case marker w of None \<Rightarrow> None | Some old \<Rightarrow> Some (now w)),
                 logged := logged w @ markerLog w,
                 trace := trace w @ openTrace w @
                   [EvStat indexUpdateFile, EvChtimes indexUpdateFile, EvReadDir]\<rparr>
      in case knowledge w of
           None \<Rightarrow> (Some (Wrapped ''read knowledge directory'' (NotExist ''KnowledgeDirectory'')), w4)
         | Some fs \<Rightarrow>
             (commitError ext,
              w4\<lparr>index :=
                    (if commitError ext = None then
                       Index (fold (\<lambda>(i, s). AList.update i s)
                                (concat (map (stagedDoc ext look isNew t) (map fst fs))) (docs w))
                     else Index (docs w)),
                  logged := logged w4 @ concat (map (docLog ext look isNew t) (map fst fs)),
                  trace := trace w4 @ concat (map (docTrace look isNew t) (map fst fs)) @
                    [EvCommitBatch]\<rparr>))"

subsection \<open>A small world to run the code in\<close>

text \<open>
  A parser that keeps the text, a freshness policy that looks for the image in the cache,
  programs that fail without their input, a pattern matcher for \<open>name.*\<close>, a batch that
  refuses the empty identifier, a search that finds the identifiers among the terms of
  the query, and an \<^verbatim>\<open>append\<close> that doubles the capacity.
\<close>

definition sampleExt :: externals where
  "sampleExt =
     \<lparr>parse = (\<lambda>ident text. \<lparr>ID = ident, Type = ''note'', Content = text\<rparr>),
      isUpToDate = (\<lambda>w ident. map_of (cacheDir w) (ident @ ''.png'') \<noteq> None),
      xelatex = (\<lambda>tex. case tex of
                   None \<Rightarrow> (''no input'', Some (Failure ''exit status 1''), [(''.log'', ''no input'')])
                 | Some t \<Rightarrow> (''ok'', None, [(''.log'', ''ok''), (''.pdf'', t)])),
      convert = (\<lambda>pdf. case pdf of
                   None \<Rightarrow> (Some (Failure ''exit status 1''), None)
                 | Some p \<Rightarrow> (None, Some p)),
      Glob = (\<lambda>pat names. Inr (filter (\<lambda>n. take (length pat - 1) n = butlast pat) names)),
      batchIndexError =
        (\<lambda>ident s. if ident = [] then Some (Failure ''document ID cannot be empty'') else None),
      commitError = None,
      search = (\<lambda>m q. Inr (filter (\<lambda>i. (CHR ''+'' # i) \<in> set (Split q CHR '' '')) (map fst m),
                          length m)),
      growCap = (\<lambda>c. 2 * c)\<rparr>"

text \<open>
  Two documents \<open>b\<close> and \<open>c\<close> in the store, three in the index: the file of \<open>a\<close> has
  been deleted. The marker is at 3, between the two files.
\<close>

definition sampleWorld :: world where
  "sampleWorld =
     \<lparr>knowledge = Some [(''b.tex'', \<lparr>content = ''B'', modTime = 5, readable = True\<rparr>),
                        (''c.tex'', \<lparr>content = ''C'', modTime = 1, readable = True\<rparr>)],
      templates = [(''header'', ''H''), (''note_header'', ''h''),
                   (''note_footer'', ''f''), (''footer'', ''F'')],
      tempDir = [], tempWritable = True, cacheDir = [],
      index = Index [(''a'', \<lparr>ID = ''a'', Type = ''note'', Content = ''A''\<rparr>),
                     (''b'', \<lparr>ID = ''b'', Type = ''note'', Content = ''old''\<rparr>),
                     (''c'', \<lparr>ID = ''c'', Type = ''note'', Content = ''C''\<rparr>)],
      marker = Some 3, now = 10, logged = [], trace = []\<rparr>"

definition scrollA :: Scroll where
  "scrollA = \<lparr>ID = ''a'', Type = [], Content = []\<rparr>"

text \<open>
  The store of the sample world with two more entries: a file \<open>.tex\<close>, whose identifier
  is empty, and a directory \<open>d\<close>, which cannot be read as a file.
\<close>

definition sampleStore :: "(string \<times> sourceFile) list" where
  "sampleStore =
     [(''.tex'', \<lparr>content = ''E'', modTime = 8, readable = True\<rparr>),
      (''b.tex'', \<lparr>content = ''B'', modTime = 5, readable = True\<rparr>),
      (''c.tex'', \<lparr>content = ''C'', modTime = 1, readable = True\<rparr>),
      (''d'', \<lparr>content = [], modTime = 9, readable = False\<rparr>)]"

text \<open>
  A world with four documents in the index and three in the store: the file of \<open>a\<close> has
  been deleted.
\<close>

definition sampleWorld4 :: world where
  "sampleWorld4 = sampleWorld
     \<lparr>knowledge := Some [(''b.tex'', \<lparr>content = ''B'', modTime = 5, readable = True\<rparr>),
                         (''c.tex'', \<lparr>content = ''C'', modTime = 1, readable = True\<rparr>),
                         (''e.tex'', \<lparr>content = ''E'', modTime = 2, readable = True\<rparr>)],
      index := Index [(''a'', zeroScroll), (''b'', zeroScroll),
                      (''c'', zeroScroll), (''e'', zeroScroll)]\<rparr>"

section \<open>Properties of the query translation\<close>

lemma Split_not_Nil: "Split s sep \<noteq> []"
  by (induction s) (auto split: list.splits)

lemma translateLoop_terms:
  "\<forall>t \<in> set ts. TrimSpace t \<noteq> [] \<Longrightarrow>
   translateLoop ts acc =
     Inr (acc @ concat (map (\<lambda>t. CHR '' '' # prefixRule (TrimSpace t)) ts))"
proof (induction ts arbitrary: acc)
  case Nil
  show ?case by simp
next
  case (Cons t ts)
  from Cons.prems obtain c cs where w: "TrimSpace t = c # cs"
    by (cases "TrimSpace t") auto
  from Cons.prems have rest: "\<forall>t \<in> set ts. TrimSpace t \<noteq> []"
    by simp
  show ?case
    using Cons.IH [OF rest] w by (simp add: prefixRule_def)
qed

lemma concat_join:
  "concat (map (\<lambda>t. CHR '' '' # t) ws) = (if ws = [] then [] else CHR '' '' # joinWith '' '' ws)"
  by (induction ws rule: induct_list012) simp_all

lemma translateLoop_empty_term:
  "\<exists>t \<in> set ts. TrimSpace t = [] \<Longrightarrow> translateLoop ts acc = Inl IndexOutOfRange"
proof (induction ts arbitrary: acc)
  case Nil
  then show ?case by simp
next
  case (Cons t ts)
  show ?case
  proof (cases "TrimSpace t")
    case Nil
    then show ?thesis by simp
  next
    case (Cons c cs)
    with Cons.prems have "\<exists>t \<in> set ts. TrimSpace t = []"
      by auto
    from Cons.IH [OF this] Cons show ?thesis
      by simp
  qed
qed

lemma translate_no_empty_term:
  assumes "\<forall>t \<in> set (Split q CHR '' ''). TrimSpace t \<noteq> []"
  shows "translatePlusMinusTildePrefixes q =
     Inr (joinWith '' '' (map (\<lambda>t. prefixRule (TrimSpace t)) (Split q CHR '' '')))"
proof -
  let ?ts = "Split q CHR '' ''"
  have c: "concat (map (\<lambda>t. CHR '' '' # prefixRule (TrimSpace t)) ?ts) =
        concat (map (\<lambda>t. CHR '' '' # t) (map (\<lambda>t. prefixRule (TrimSpace t)) ?ts))"
    by (simp add: comp_def)
  have "translateLoop ?ts [] = Inr (concat (map (\<lambda>t. CHR '' '' # prefixRule (TrimSpace t)) ?ts))"
    using translateLoop_terms [OF assms, of "[]"] by simp
  then show ?thesis
    unfolding translatePlusMinusTildePrefixes_def c concat_join
    by (simp add: Split_not_Nil)
qed

text \<open>
  The translation panics exactly on the queries with a term that is empty once trimmed;
  on every other query it returns.
\<close>

lemma translate_panics_iff:
  "(translatePlusMinusTildePrefixes q = Inl IndexOutOfRange) =
   (\<exists>t \<in> set (Split q CHR '' ''). TrimSpace t = [])"
proof (cases "\<exists>t \<in> set (Split q CHR '' ''). TrimSpace t = []")
  case True
  then show ?thesis
    by (simp add: translatePlusMinusTildePrefixes_def translateLoop_empty_term)
next
  case False
  then have "\<forall>t \<in> set (Split q CHR '' ''). TrimSpace t \<noteq> []"
    by simp
  from translate_no_empty_term [OF this] False show ?thesis
    by simp
qed

lemmas translate_eval =
  translatePlusMinusTildePrefixes_def TrimSpace_def leadingSpace_def spaceEncodings_def
  prefixRule_def

text \<open>
  C6. The claim: query translation does not crash on a query with an empty term or a term
  that is only its leading \<open>+\<close>, \<open>-\<close> or \<open>~\<close>. The code reads \<^verbatim>\<open>word[0]\<close> without
  looking at the length of the word: on the empty query and on a query with two spaces in a
  row it panics with an index out of range. The terms that are only their prefix are
  translated without a panic.
\<close>

theorem translate_empty_term_panics:
  "translatePlusMinusTildePrefixes [] = Inl IndexOutOfRange \<and>
   translatePlusMinusTildePrefixes ''a  b'' = Inl IndexOutOfRange \<and>
   translatePlusMinusTildePrefixes ''+'' = Inr ''+'' \<and>
   translatePlusMinusTildePrefixes ''-'' = Inr ''-'' \<and>
   translatePlusMinusTildePrefixes ''~'' = Inr []"
  by (simp add: translate_eval)

text \<open>
  C7, as amended. Every piece of the query between two spaces is first trimmed of its
  leading and trailing white space. On a query none of whose trimmed terms is empty, the
  translation returns the trimmed terms, each by the rule of the specification (a term
  beginning with \<open>+\<close> or \<open>-\<close> unchanged, a leading \<open>~\<close> stripped, a \<open>+\<close> put before
  any other term), joined by single spaces.
\<close>

theorem translate_trimmed_terms:
  "\<forall>t \<in> set (Split q CHR '' ''). TrimSpace t \<noteq> [] \<Longrightarrow>
   translatePlusMinusTildePrefixes q =
     Inr (joinWith '' '' (map (\<lambda>t. prefixRule (TrimSpace t)) (Split q CHR '' '')))"
  by (rule translate_no_empty_term)

text \<open>The example of the claim: \<open>alpha -beta ~gamma\<close> becomes \<open>+alpha -beta gamma\<close>.\<close>

theorem translate_trimmed_terms_witness:
  "map TrimSpace (Split ''alpha -beta ~gamma'' CHR '' '') = [''alpha'', ''-beta'', ''~gamma''] \<and>
   translatePlusMinusTildePrefixes ''alpha -beta ~gamma'' = Inr ''+alpha -beta gamma''"
  using translate_trimmed_terms [of "''alpha -beta ~gamma''"]
  by (simp add: TrimSpace_def leadingSpace_def spaceEncodings_def prefixRule_def)

text \<open>
  C7 as stated fails on a term with white space other than the space at an end: the query
  \<open>+a\<close> followed by a tab is one term beginning with \<open>+\<close>, which the rule passes
  unchanged, and the code returns \<open>+a\<close>.
\<close>

theorem translate_unchanged_counterexample:
  "joinWith '' '' (map prefixRule (Split [CHR ''+'', CHR ''a'', CHR 0x09] CHR '' ''))
     = [CHR ''+'', CHR ''a'', CHR 0x09] \<and>
   translatePlusMinusTildePrefixes [CHR ''+'', CHR ''a'', CHR 0x09] = Inr ''+a''"
  by (simp add: translate_eval)

section \<open>Properties of the render pipeline\<close>

lemmas render_eval =
  renderScroll_def renderListOfScrolls_def xelatexImagemagick_def pointerRenderer_def
  valueReceiver_def pointerReceiver_def scrollToLatex_impl_def latexToPdf_impl_def
  pdfToPng_impl_def deleteTemporaryFiles_impl_def readScroll_def ReadFile_def
  lookupKnowledge_def removeFromIndex_def openExistingIndex_def indexDelete_def emit_def
  logError_def tryLogError_def runXelatex_def runConvert_def Remove_def
  errTemplateReader_readTemplate_def readTemplate_def writeTemp_def Wrap_def
  sampleExt_def sampleWorld_def scrollA_def AList.delete_eq

text \<open>The bodies of stages 2 and 3 do nothing for a receiver that holds an error.\<close>

lemma stage_bodies_guarded:
  "error x \<noteq> None \<Longrightarrow>
   latexToPdf_impl ext i x w = (x, w) \<and> pdfToPng_impl ext i x w = (x, w)"
  by (simp add: latexToPdf_impl_def pdfToPng_impl_def)

text \<open>
  With the renderer of \<^verbatim>\<open>render.go\<close>, whose methods work on copies, the renderer is
  after \<^verbatim>\<open>renderScroll\<close> as it was before, and the result is its old error, wrapped.
\<close>

lemma renderScroll_value_error:
  "fst (renderScroll ext (xelatexImagemagick ext) i x w) =
     (if isUpToDate ext w i then None else Wrap (error x) ''rendering'')"
  by (simp add: renderScroll_def xelatexImagemagick_def valueReceiver_def Let_def
      split: prod.splits)

lemma renderScroll_value_state:
  "fst (snd (renderScroll ext (xelatexImagemagick ext) i x w)) = x"
  by (simp add: renderScroll_def xelatexImagemagick_def valueReceiver_def Let_def
      split: prod.splits)

text \<open>
  Whatever the renderer, \<^verbatim>\<open>renderScroll\<close> never returns \<^verbatim>\<open>ErrNoSuchScroll\<close> itself:
  it returns \<^verbatim>\<open>nil\<close> or a new error that wraps the renderer's.
\<close>

lemma renderScroll_not_sentinel:
  "fst (renderScroll ext renderer i r w) \<noteq> Some ErrNoSuchScroll"
  by (simp add: renderScroll_def Wrap_def Let_def split: prod.splits option.splits)

lemma renderLoop_value:
  "error x = None \<Longrightarrow>
   fst (renderLoop ext (xelatexImagemagick ext) ids n x w) = Inr (n + length ids)"
proof (induction ids arbitrary: n w)
  case Nil
  then show ?case by simp
next
  case (Cons s ids)
  obtain e x1 w1 where r: "renderScroll ext (xelatexImagemagick ext) (ID s) x w = (e, x1, w1)"
    by (cases "renderScroll ext (xelatexImagemagick ext) (ID s) x w") auto
  have "e = None"
    using renderScroll_value_error [of ext "ID s" x w] r Cons.prems by (simp add: Wrap_def)
  moreover have "x1 = x"
    using renderScroll_value_state [of ext "ID s" x w] r by simp
  ultimately show ?case
    using Cons.IH [OF Cons.prems, of "Suc n" w1] r by simp
qed

text \<open>
  So \<^verbatim>\<open>renderListOfScrolls\<close>, given the renderer \<^verbatim>\<open>findScrolls\<close> gives it, counts
  every identifier of the list, whatever happened to its render.
\<close>

lemma renderListOfScrolls_value_counts_all:
  "fst (renderListOfScrolls ext (xelatexImagemagick ext) ids \<lparr>error = None\<rparr> w) =
     Inr (length ids)"
  using renderLoop_value [of "\<lparr>error = None\<rparr>" ext ids 0 w]
  by (simp add: renderListOfScrolls_def)

text \<open>
  C1. The claim: once stage 1 has recorded an error, stages 2 and 3 do not run, and stage 4
  runs. In the sample world the source of \<open>a\<close> is missing: the body of stage 1 sets the
  error of its receiver to \<^verbatim>\<open>ErrNoSuchScroll\<close>, but the receiver is a copy, and
  \<^verbatim>\<open>renderScroll\<close> goes on to run \<^verbatim>\<open>xelatex\<close> and \<^verbatim>\<open>convert\<close> before the cleanup.
\<close>

theorem renderScroll_runs_stages_after_error:
  "error (fst (scrollToLatex_impl sampleExt ''a'' \<lparr>error = None\<rparr> sampleWorld))
     = Some ErrNoSuchScroll \<and>
   trace (snd (snd (renderScroll sampleExt (xelatexImagemagick sampleExt) ''a''
                      \<lparr>error = None\<rparr> sampleWorld))) =
     [EvReadFile (Knowledge ''a.tex''), EvOpenIndex, EvIndexDelete ''a'',
      EvExec ''xelatex'' ''a'', EvExec ''convert'' ''a'', EvGlob ''a.*'', EvRemove ''a.log'']"
  by (simp add: render_eval Let_def)

text \<open>
  C2. The claim: for an identifier without source file, \<^verbatim>\<open>renderScroll\<close> removes the
  entry of the index and returns \<^verbatim>\<open>ErrNoSuchScroll\<close>. In the sample world the entry of
  \<open>a\<close> is removed, and the result is \<^verbatim>\<open>nil\<close>.
\<close>

theorem renderScroll_missing_source_returns_nil:
  "lookupKnowledge sampleWorld ''a.tex'' = None \<and>
   \<not> isUpToDate sampleExt sampleWorld ''a'' \<and>
   fst (renderScroll sampleExt (xelatexImagemagick sampleExt) ''a''
          \<lparr>error = None\<rparr> sampleWorld) = None \<and>
   index (snd (snd (renderScroll sampleExt (xelatexImagemagick sampleExt) ''a''
                      \<lparr>error = None\<rparr> sampleWorld))) =
     Index [(''b'', \<lparr>ID = ''b'', Type = ''note'', Content = ''old''\<rparr>),
            (''c'', \<lparr>ID = ''c'', Type = ''note'', Content = ''C''\<rparr>)]"
  by (simp add: render_eval Let_def)

text \<open>
  C3. The claim: \<^verbatim>\<open>renderListOfScrolls\<close> skips an identifier whose render reports
  \<^verbatim>\<open>ErrNoSuchScroll\<close>, aborts on another error and returns the number of renders that
  succeeded. On the list of the one identifier \<open>a\<close>, whose source is missing, the code
  returns 1 with the renderer of \<^verbatim>\<open>render.go\<close>; with a renderer that keeps the error of
  stage 1 it aborts, since \<^verbatim>\<open>renderScroll\<close> wraps the error before the comparison.
\<close>

theorem renderListOfScrolls_counts_missing_scroll:
  "fst (renderListOfScrolls sampleExt (xelatexImagemagick sampleExt) [scrollA]
          \<lparr>error = None\<rparr> sampleWorld) = Inr 1 \<and>
   fst (renderListOfScrolls sampleExt (pointerRenderer sampleExt) [scrollA]
          \<lparr>error = None\<rparr> sampleWorld) = Inl (LogPanic ''a'')"
  by (simp add: render_eval Let_def)

text \<open>
  C8. For an identifier whose artifact is up to date, \<^verbatim>\<open>renderScroll\<close> returns
  \<^verbatim>\<open>nil\<close> and leaves the renderer and the world as they are: no stage runs, whatever
  the renderer.
\<close>

theorem renderScroll_up_to_date:
  "isUpToDate ext w ident \<Longrightarrow> renderScroll ext renderer ident r w = (None, r, w)"
  by (simp add: renderScroll_def)

text \<open>
  In the sample world the first render of \<open>b\<close> writes the image; in the world it leaves,
  the second render does nothing.
\<close>

theorem renderScroll_up_to_date_witness:
  "cacheDir (snd (snd (renderScroll sampleExt (xelatexImagemagick sampleExt) ''b''
                         \<lparr>error = None\<rparr> sampleWorld))) = [(''b.png'', ''HhBfF'')] \<and>
   renderScroll sampleExt (xelatexImagemagick sampleExt) ''b'' \<lparr>error = None\<rparr>
       (snd (snd (renderScroll sampleExt (xelatexImagemagick sampleExt) ''b''
                    \<lparr>error = None\<rparr> sampleWorld))) =
     (None, \<lparr>error = None\<rparr>,
      snd (snd (renderScroll sampleExt (xelatexImagemagick sampleExt) ''b''
                  \<lparr>error = None\<rparr> sampleWorld)))"
proof -
  let ?w1 = "snd (snd (renderScroll sampleExt (xelatexImagemagick sampleExt) ''b''
                         \<lparr>error = None\<rparr> sampleWorld))"
  have c: "cacheDir ?w1 = [(''b.png'', ''HhBfF'')]"
    by (simp add: render_eval Let_def)
  then have u: "isUpToDate sampleExt ?w1 ''b''"
    by (simp add: sampleExt_def)
  from renderScroll_up_to_date [OF u] c show ?thesis
    by simp
qed

section \<open>Properties of the incremental index\<close>

text \<open>Looking a file up depends on the store only.\<close>

lemma lookupKnowledge_frame [simp]:
  "lookupKnowledge (emit e w) = lookupKnowledge w"
  "lookupKnowledge (logError e' w) = lookupKnowledge w"
  "lookupKnowledge (w\<lparr>logged := l\<rparr>) = lookupKnowledge w"
  "lookupKnowledge (w\<lparr>trace := tr\<rparr>) = lookupKnowledge w"
  "lookupKnowledge (w\<lparr>index := ix\<rparr>) = lookupKnowledge w"
  "lookupKnowledge (w\<lparr>marker := mk\<rparr>) = lookupKnowledge w"
  by (auto simp: lookupKnowledge_def emit_def logError_def fun_eq_iff)

text \<open>The two steps of the loop on one file, by what the store holds under its name.\<close>

lemma isOlderThan_eq:
  "isOlderThan f t w =
     (case lookupKnowledge w f of
        None \<Rightarrow> (True, w\<lparr>logged := logged w @ [NotExist f], trace := trace w @ [EvStat (Knowledge f)]\<rparr>)
      | Some sf \<Rightarrow> (modTime sf < t, w\<lparr>trace := trace w @ [EvStat (Knowledge f)]\<rparr>))"
  by (simp add: isOlderThan_def getModTime_def statTime_def emit_def logError_def Let_def
      split: option.splits)

lemma loadAndParse_eq:
  "loadAndParseScrollContent ext ident f w =
     (case lookupKnowledge w f of
        None \<Rightarrow> (parse ext ident [], Some (NotExist f),
                  w\<lparr>logged := logged w @ [NotExist f], trace := trace w @ [EvReadFile (Knowledge f)]\<rparr>)
      | Some sf \<Rightarrow>
          if readable sf then (parse ext ident (content sf), None, w\<lparr>trace := trace w @ [EvReadFile (Knowledge f)]\<rparr>)
          else (parse ext ident [], Some (Failure (f @ '': cannot be read'')),
                w\<lparr>logged := logged w @ [Failure (f @ '': cannot be read'')],
                  trace := trace w @ [EvReadFile (Knowledge f)]\<rparr>))"
  by (simp add: loadAndParseScrollContent_def ReadFile_def emit_def logError_def tryLogError_def Let_def
      split: option.splits)

text \<open>What the specification's three functions give for the first file of the list.\<close>

lemma doc_None:
  "look f = None \<Longrightarrow> stagedDoc ext look isNew t f = []"
  "look f = None \<Longrightarrow> docLog ext look isNew t f = (if isNew then [NotExist f, NotExist f] else [NotExist f])"
  "look f = None \<Longrightarrow> docTrace look isNew t f = (if isNew then [EvReadFile (Knowledge f)] else [EvStat (Knowledge f)])"
  by (simp_all add: stagedDoc_def docLog_def docTrace_def skipped_def)

lemma doc_Some:
  "look f = Some sf \<Longrightarrow> stagedDoc ext look isNew t f =
     (if \<not> isNew \<and> modTime sf < t then []
      else if \<not> readable sf then []
      else if batchIndexError ext (TrimSuffix f ''.tex'') (parse ext (TrimSuffix f ''.tex'') (content sf)) = None
           then [(TrimSuffix f ''.tex'', parse ext (TrimSuffix f ''.tex'') (content sf))] else [])"
  "look f = Some sf \<Longrightarrow> docLog ext look isNew t f =
     (if \<not> isNew \<and> modTime sf < t then []
      else if \<not> readable sf then [Failure (f @ '': cannot be read''), Failure (f @ '': cannot be read'')]
      else case batchIndexError ext (TrimSuffix f ''.tex'') (parse ext (TrimSuffix f ''.tex'') (content sf)) of
             None \<Rightarrow> [] | Some e \<Rightarrow> [e])"
  "look f = Some sf \<Longrightarrow> docTrace look isNew t f =
     (if isNew then [] else [EvStat (Knowledge f)]) @
     (if \<not> isNew \<and> modTime sf < t then [] else [EvReadFile (Knowledge f)])"
  by (simp_all add: stagedDoc_def docLog_def docTrace_def skipped_def Let_def)

text \<open>
  The loop adds to the batch, the log and the trace what each document adds to them, in
  the order of the directory, and changes nothing else.
\<close>

lemma indexFiles_run:
  "indexFiles ext isNew t names batch w =
     (batch @ concat (map (stagedDoc ext (lookupKnowledge w) isNew t) names),
      w\<lparr>logged := logged w @ concat (map (docLog ext (lookupKnowledge w) isNew t) names),
        trace := trace w @ concat (map (docTrace (lookupKnowledge w) isNew t) names)\<rparr>)"
proof (induction names arbitrary: batch w isNew)
  case Nil
  show ?case by simp
next
  case (Cons f names)
  show ?case
    apply (simp only: indexFiles.simps isOlderThan_eq loadAndParse_eq)
    apply (cases "lookupKnowledge w f"; cases isNew)
       apply (simp_all add: Cons.IH doc_None doc_Some Let_def logError_def split: option.splits)
    done
qed

text \<open>
  Unless the index can be neither opened nor created, \<^verbatim>\<open>updateIndex\<close> does what
  \<open>afterUpdate\<close> says.
\<close>

lemma updateIndex_run:
  assumes "index w \<noteq> Unopenable"
  shows "updateIndex ext w = afterUpdate ext w"
proof (cases "index w")
  case NoIndex
  show ?thesis
    unfolding updateIndex_def afterUpdate_def
    by (cases "marker w"; cases "knowledge w"; cases "commitError ext")
       (simp_all add: NoIndex openOrCreateIndex_def openExistingIndex_def createNewIndex_def
          getModTime_def statTime_def indexUpdateFile_def recordIndexUpdateStart_def touch_def
          Chtimes_def ReadDir_def Batch_def indexFiles_run emit_def logError_def tryLogError_def
          Let_def docs_def cutoff_def markerLog_def openTrace_def)
next
  case Unopenable
  with assms show ?thesis by simp
next
  case (Index m)
  show ?thesis
    unfolding updateIndex_def afterUpdate_def
    by (cases "marker w"; cases "knowledge w"; cases "commitError ext")
       (simp_all add: Index openOrCreateIndex_def openExistingIndex_def createNewIndex_def
          getModTime_def statTime_def indexUpdateFile_def recordIndexUpdateStart_def touch_def
          Chtimes_def ReadDir_def Batch_def indexFiles_run emit_def logError_def tryLogError_def
          Let_def docs_def cutoff_def markerLog_def openTrace_def)
qed

lemma no_commit_in_docTrace:
  "filter (\<lambda>e. e = EvCommitBatch) (concat (map (docTrace look isNew t \<circ> g) xs)) = []"
  by (induction xs) (simp_all add: docTrace_def)

lemma sampleExt_simps:
  "parse sampleExt i txt = \<lparr>ID = i, Type = ''note'', Content = txt\<rparr>"
  "batchIndexError sampleExt i s =
     (if i = [] then Some (Failure ''document ID cannot be empty'') else None)"
  "commitError sampleExt = None"
  by (simp_all add: sampleExt_def)

lemma sampleWorld_simps:
  "knowledge sampleWorld =
     Some [(''b.tex'', \<lparr>content = ''B'', modTime = 5, readable = True\<rparr>),
           (''c.tex'', \<lparr>content = ''C'', modTime = 1, readable = True\<rparr>)]"
  "index sampleWorld =
     Index [(''a'', \<lparr>ID = ''a'', Type = ''note'', Content = ''A''\<rparr>),
            (''b'', \<lparr>ID = ''b'', Type = ''note'', Content = ''old''\<rparr>),
            (''c'', \<lparr>ID = ''c'', Type = ''note'', Content = ''C''\<rparr>)]"
  "marker sampleWorld = Some 3"
  "now sampleWorld = 10"
  "logged sampleWorld = []"
  "trace sampleWorld = []"
  by (simp_all add: sampleWorld_def)

text \<open>
  C5. When the index is opened or created and the directory is listed, \<^verbatim>\<open>updateIndex\<close>
  returns what the commit returns, and the index it leaves is the old one (empty when the
  index is new) with the staged documents written over it, if the commit succeeds. A
  document is staged unless it is passed over (the index is not new and the modification time
  of the file is less than the cutoff, the marker as it was before the update), or it cannot
  be read, or the batch refuses it; on a new index no document is passed over. The log
  gains the errors of the marker and of each document that failed, and the update goes on
  after them. The batch is committed once, and the commit is the last operation.
\<close>

theorem updateIndex_stages_by_marker:
  "index w \<noteq> Unopenable \<Longrightarrow> knowledge w = Some fs \<Longrightarrow>
   fst (updateIndex ext w) = commitError ext \<and>
   index (snd (updateIndex ext w)) =
     (if commitError ext = None then
        Index (fold (\<lambda>(i, s). AList.update i s)
                 (concat (map (stagedDoc ext (lookupKnowledge w) (index w = NoIndex) (cutoff w))
                            (map fst fs)))
                 (docs w))
      else Index (docs w)) \<and>
   logged (snd (updateIndex ext w)) =
     logged w @ markerLog w @
     concat (map (docLog ext (lookupKnowledge w) (index w = NoIndex) (cutoff w)) (map fst fs)) \<and>
   filter (\<lambda>e. e = EvCommitBatch) (trace (snd (updateIndex ext w))) =
     filter (\<lambda>e. e = EvCommitBatch) (trace w) @ [EvCommitBatch] \<and>
   last (trace (snd (updateIndex ext w))) = EvCommitBatch"
  by (simp add: updateIndex_run afterUpdate_def Let_def no_commit_in_docTrace openTrace_def
      indexUpdateFile_def)

lemmas index_eval =
  stagedDoc_def docLog_def docTrace_def skipped_def cutoff_def docs_def markerLog_def openTrace_def
  lookupKnowledge_def TrimSuffix_def sampleExt_simps sampleWorld_simps sampleStore_def
  indexUpdateFile_def Let_def

text \<open>
  In the sample world, with the larger store and the marker at 3: \<open>b\<close> (time 5) is
  indexed again, \<open>c\<close> (time 1) is passed over, the file with the empty identifier and the
  directory are logged and skipped; on a new index \<open>b\<close> and \<open>c\<close> are both indexed.
\<close>

theorem updateIndex_stages_by_marker_witness:
  "index (snd (updateIndex sampleExt (sampleWorld\<lparr>knowledge := Some sampleStore\<rparr>))) =
     Index [(''a'', \<lparr>ID = ''a'', Type = ''note'', Content = ''A''\<rparr>),
            (''b'', \<lparr>ID = ''b'', Type = ''note'', Content = ''B''\<rparr>),
            (''c'', \<lparr>ID = ''c'', Type = ''note'', Content = ''C''\<rparr>)] \<and>
   logged (snd (updateIndex sampleExt (sampleWorld\<lparr>knowledge := Some sampleStore\<rparr>))) =
     [Failure ''document ID cannot be empty'',
      Failure ''d: cannot be read'', Failure ''d: cannot be read''] \<and>
   fst (updateIndex sampleExt (sampleWorld\<lparr>knowledge := Some sampleStore\<rparr>)) = None \<and>
   index (snd (updateIndex sampleExt
                 (sampleWorld\<lparr>knowledge := Some sampleStore, index := NoIndex\<rparr>))) =
     Index [(''b'', \<lparr>ID = ''b'', Type = ''note'', Content = ''B''\<rparr>),
            (''c'', \<lparr>ID = ''c'', Type = ''note'', Content = ''C''\<rparr>)]"
  using updateIndex_stages_by_marker
          [of "sampleWorld\<lparr>knowledge := Some sampleStore\<rparr>" sampleStore sampleExt]
        updateIndex_stages_by_marker
          [of "sampleWorld\<lparr>knowledge := Some sampleStore, index := NoIndex\<rparr>" sampleStore sampleExt]
  by (simp add: index_eval)

text \<open>
  C9, as amended. In every run of \<^verbatim>\<open>updateIndex\<close> that opens or creates the index, the
  marker is read first, then touched, then the directory is listed, and the documents are
  examined and read after that; which documents are read is decided by the cutoff, the
  marker as it was before the run, or zero when there was none. After the run the marker is
  the current time if the sentinel file was there, and still absent if it was not: then the
  failure to read the marker and the failure to touch it are both in the log, before the
  errors of the documents, and nothing else is. With no marker the cutoff is zero, and no
  document with a modification time from the epoch on is passed over.
\<close>

theorem updateIndex_marker_order:
  "index w \<noteq> Unopenable \<Longrightarrow>
   trace (snd (updateIndex ext w)) =
     trace w @ openTrace w @
     [EvStat indexUpdateFile, EvChtimes indexUpdateFile, EvReadDir] @
     (case knowledge w of
        None \<Rightarrow> []
      | Some fs \<Rightarrow>
          concat (map (docTrace (lookupKnowledge w) (index w = NoIndex) (cutoff w)) (map fst fs)) @
          [EvCommitBatch]) \<and>
   marker (snd (updateIndex ext w)) =
     (case marker w of None \<Rightarrow> None | Some old \<Rightarrow> Some (now w)) \<and>
   logged (snd (updateIndex ext w)) =
     logged w @
     (if marker w = None then [NotExist ''index_updated'', NotExist ''index_updated''] else []) @
     (case knowledge w of
        None \<Rightarrow> []
      | Some fs \<Rightarrow>
          concat (map (docLog ext (lookupKnowledge w) (index w = NoIndex) (cutoff w)) (map fst fs))) \<and>
   (marker w = None \<longrightarrow>
      cutoff w = 0 \<and>
      (\<forall>name f. lookupKnowledge w name = Some f \<longrightarrow> 0 \<le> modTime f \<longrightarrow>
         \<not> skipped (lookupKnowledge w) (index w = NoIndex) (cutoff w) name))"
  by (simp add: updateIndex_run afterUpdate_def Let_def cutoff_def skipped_def markerLog_def
      split: option.splits)

text \<open>
  In the sample world the marker goes from 3 to 10, the old value 3 decides (\<open>b\<close> is
  read, \<open>c\<close> is not) and nothing is logged. Without the sentinel file the two failures
  are logged, the cutoff is 0 and \<open>c\<close> is not passed over.
\<close>

theorem updateIndex_marker_order_witness:
  "trace (snd (updateIndex sampleExt sampleWorld)) =
     [EvOpenIndex, EvStat (Alexandria ''index_updated''), EvChtimes (Alexandria ''index_updated''),
      EvReadDir, EvStat (Knowledge ''b.tex''), EvReadFile (Knowledge ''b.tex''),
      EvStat (Knowledge ''c.tex''), EvCommitBatch] \<and>
   marker sampleWorld = Some 3 \<and>
   marker (snd (updateIndex sampleExt sampleWorld)) = Some 10 \<and>
   logged (snd (updateIndex sampleExt sampleWorld)) = [] \<and>
   logged (snd (updateIndex sampleExt (sampleWorld\<lparr>marker := None\<rparr>))) =
     [NotExist ''index_updated'', NotExist ''index_updated''] \<and>
   cutoff (sampleWorld\<lparr>marker := None\<rparr>) = 0 \<and>
   \<not> skipped (lookupKnowledge (sampleWorld\<lparr>marker := None\<rparr>)) False
         (cutoff (sampleWorld\<lparr>marker := None\<rparr>)) ''c.tex''"
proof -
  have a: "index sampleWorld \<noteq> Unopenable" "index (sampleWorld\<lparr>marker := None\<rparr>) \<noteq> Unopenable"
    by (simp_all add: sampleWorld_simps)
  have c: "lookupKnowledge (sampleWorld\<lparr>marker := None\<rparr>) ''c.tex'' =
      Some \<lparr>content = ''C'', modTime = 1, readable = True\<rparr>"
    by (simp add: lookupKnowledge_def sampleWorld_simps)
  have n: "marker (sampleWorld\<lparr>marker := None\<rparr>) = None"
    by simp
  note t = updateIndex_marker_order [OF a(2), of sampleExt]
  from t n have z: "cutoff (sampleWorld\<lparr>marker := None\<rparr>) = 0"
    by blast
  from t n have every:
    "\<forall>name f. lookupKnowledge (sampleWorld\<lparr>marker := None\<rparr>) name = Some f \<longrightarrow>
       0 \<le> modTime f \<longrightarrow>
       \<not> skipped (lookupKnowledge (sampleWorld\<lparr>marker := None\<rparr>)) (index (sampleWorld\<lparr>marker := None\<rparr>) = NoIndex)
           (cutoff (sampleWorld\<lparr>marker := None\<rparr>)) name"
    by blast
  from every [rule_format, OF c] z
  have "cutoff (sampleWorld\<lparr>marker := None\<rparr>) = 0 \<and>
      \<not> skipped (lookupKnowledge (sampleWorld\<lparr>marker := None\<rparr>)) False
            (cutoff (sampleWorld\<lparr>marker := None\<rparr>)) ''c.tex''"
    by (simp add: sampleWorld_simps)
  moreover from updateIndex_marker_order [OF a(1), of sampleExt]
  have "trace (snd (updateIndex sampleExt sampleWorld)) =
      trace sampleWorld @ openTrace sampleWorld @
      [EvStat indexUpdateFile, EvChtimes indexUpdateFile, EvReadDir] @
      (case knowledge sampleWorld of
         None \<Rightarrow> []
       | Some fs \<Rightarrow>
           concat (map (docTrace (lookupKnowledge sampleWorld) (index sampleWorld = NoIndex)
                          (cutoff sampleWorld)) (map fst fs)) @
           [EvCommitBatch])"
    and "marker (snd (updateIndex sampleExt sampleWorld)) =
      (case marker sampleWorld of None \<Rightarrow> None | Some old \<Rightarrow> Some (now sampleWorld))"
    and "logged (snd (updateIndex sampleExt sampleWorld)) =
      logged sampleWorld @
      (if marker sampleWorld = None
       then [NotExist ''index_updated'', NotExist ''index_updated''] else []) @
      (case knowledge sampleWorld of
         None \<Rightarrow> []
       | Some fs \<Rightarrow>
           concat (map (docLog sampleExt (lookupKnowledge sampleWorld) (index sampleWorld = NoIndex)
                          (cutoff sampleWorld)) (map fst fs)))"
    by blast+
  moreover from t
  have "logged (snd (updateIndex sampleExt (sampleWorld\<lparr>marker := None\<rparr>))) =
      logged (sampleWorld\<lparr>marker := None\<rparr>) @
      (if marker (sampleWorld\<lparr>marker := None\<rparr>) = None
       then [NotExist ''index_updated'', NotExist ''index_updated''] else []) @
      (case knowledge (sampleWorld\<lparr>marker := None\<rparr>) of
         None \<Rightarrow> []
       | Some fs \<Rightarrow>
           concat (map (docLog sampleExt (lookupKnowledge (sampleWorld\<lparr>marker := None\<rparr>))
                          (index (sampleWorld\<lparr>marker := None\<rparr>) = NoIndex)
                          (cutoff (sampleWorld\<lparr>marker := None\<rparr>))) (map fst fs)))"
    by blast
  ultimately show ?thesis
    by (simp add: index_eval)
qed

text \<open>
  C9 as stated fails in a run without sentinel file: the marker is not rewritten to the
  current time, 10; there is still none after the run.
\<close>

theorem updateIndex_marker_not_rewritten_counterexample:
  "marker (snd (updateIndex sampleExt (sampleWorld\<lparr>marker := None\<rparr>))) = None \<and>
   now (sampleWorld\<lparr>marker := None\<rparr>) = 10"
  by (simp add: updateIndex_run afterUpdate_def sampleWorld_simps Let_def)


text \<open>When the index can be neither opened nor created, the marker is not touched.\<close>

lemma updateIndex_unopenable:
  "index w = Unopenable \<Longrightarrow>
   updateIndex ext w =
     (Some (Wrapped ''open or create index''
              (Failure ''cannot create new index, path already exists'')),
      w\<lparr>trace := trace w @ [EvOpenIndex, EvCreateIndex]\<rparr>)"
  by (simp add: updateIndex_def openOrCreateIndex_def openExistingIndex_def createNewIndex_def
      emit_def Let_def)

lemma updateIndex_marker:
  "marker (snd (updateIndex ext w)) =
     (if index w = Unopenable then marker w
      else case marker w of None \<Rightarrow> None | Some old \<Rightarrow> Some (now w))"
  by (cases "index w = Unopenable")
     (simp_all add: updateIndex_unopenable updateIndex_run afterUpdate_def Let_def
        split: option.splits)

lemma marker_stays_absent:
  "marker w = None \<Longrightarrow> marker (((\<lambda>v. snd (updateIndex ext v)) ^^ n) w) = None"
  by (induction n) (simp_all add: updateIndex_marker)

text \<open>
  C10. Without sentinel file, \<^verbatim>\<open>touch\<close> fails and creates nothing, and the marker is
  still absent after \<^verbatim>\<open>updateIndex\<close>, and after any number of runs, each of which reads
  the cutoff 0. In a run that opens or creates the index, the two failures (of reading the
  marker and of touching it) are logged and the run goes on: the directory is listed, the
  documents are examined with the cutoff 0, and the result of the run is that of the commit.
\<close>

theorem touch_never_creates_marker:
  "marker w = None \<Longrightarrow>
   touch indexUpdateFile w =
     (Some (NotExist ''index_updated''), emit (EvChtimes indexUpdateFile) w) \<and>
   marker (snd (updateIndex ext w)) = None \<and>
   (\<forall>n. marker (((\<lambda>v. snd (updateIndex ext v)) ^^ n) w) = None \<and>
        fst (getModTime indexUpdateFile (((\<lambda>v. snd (updateIndex ext v)) ^^ n) w)) = 0) \<and>
   (index w \<noteq> Unopenable \<longrightarrow>
      logged (snd (updateIndex ext w)) =
        logged w @ [NotExist ''index_updated'', NotExist ''index_updated''] @
        (case knowledge w of
           None \<Rightarrow> []
         | Some fs \<Rightarrow>
             concat (map (docLog ext (lookupKnowledge w) (index w = NoIndex) 0) (map fst fs))) \<and>
      trace (snd (updateIndex ext w)) =
        trace w @ openTrace w @
        [EvStat indexUpdateFile, EvChtimes indexUpdateFile, EvReadDir] @
        (case knowledge w of
           None \<Rightarrow> []
         | Some fs \<Rightarrow>
             concat (map (docTrace (lookupKnowledge w) (index w = NoIndex) 0) (map fst fs)) @
             [EvCommitBatch])) \<and>
   (index w \<noteq> Unopenable \<longrightarrow> knowledge w \<noteq> None \<longrightarrow> fst (updateIndex ext w) = commitError ext)"
proof -
  assume m: "marker w = None"
  have t: "touch indexUpdateFile w =
      (Some (NotExist ''index_updated''), emit (EvChtimes indexUpdateFile) w)"
    using m by (simp add: touch_def Chtimes_def statTime_def indexUpdateFile_def Let_def)
  have a: "marker (snd (updateIndex ext w)) = None"
    using m by (simp add: updateIndex_marker)
  have i: "\<forall>n. marker (((\<lambda>v. snd (updateIndex ext v)) ^^ n) w) = None \<and>
        fst (getModTime indexUpdateFile (((\<lambda>v. snd (updateIndex ext v)) ^^ n) w)) = 0"
    using marker_stays_absent [OF m, where ext = ext]
    by (simp add: getModTime_def statTime_def indexUpdateFile_def Let_def)
  have l: "index w \<noteq> Unopenable \<longrightarrow>
      logged (snd (updateIndex ext w)) =
        logged w @ [NotExist ''index_updated'', NotExist ''index_updated''] @
        (case knowledge w of
           None \<Rightarrow> []
         | Some fs \<Rightarrow>
             concat (map (docLog ext (lookupKnowledge w) (index w = NoIndex) 0) (map fst fs))) \<and>
      trace (snd (updateIndex ext w)) =
        trace w @ openTrace w @
        [EvStat indexUpdateFile, EvChtimes indexUpdateFile, EvReadDir] @
        (case knowledge w of
           None \<Rightarrow> []
         | Some fs \<Rightarrow>
             concat (map (docTrace (lookupKnowledge w) (index w = NoIndex) 0) (map fst fs)) @
             [EvCommitBatch])"
    using m by (simp add: updateIndex_run afterUpdate_def Let_def markerLog_def cutoff_def
        split: option.splits)
  have r: "index w \<noteq> Unopenable \<longrightarrow> knowledge w \<noteq> None \<longrightarrow> fst (updateIndex ext w) = commitError ext"
    by (auto simp: updateIndex_run afterUpdate_def Let_def)
  from t a i l r show ?thesis by blast
qed

text \<open>
  In the sample world without its sentinel file: no marker after one run and after two, the
  two errors in the log, and both documents read.
\<close>

theorem touch_never_creates_marker_witness:
  "marker (sampleWorld\<lparr>marker := None\<rparr>) = None \<and>
   marker (snd (updateIndex sampleExt (sampleWorld\<lparr>marker := None\<rparr>))) = None \<and>
   marker (snd (updateIndex sampleExt (snd (updateIndex sampleExt (sampleWorld\<lparr>marker := None\<rparr>))))) = None \<and>
   logged (snd (updateIndex sampleExt (sampleWorld\<lparr>marker := None\<rparr>))) =
     [NotExist ''index_updated'', NotExist ''index_updated''] \<and>
   trace (snd (updateIndex sampleExt (sampleWorld\<lparr>marker := None\<rparr>))) =
     [EvOpenIndex, EvStat (Alexandria ''index_updated''), EvChtimes (Alexandria ''index_updated''),
      EvReadDir, EvStat (Knowledge ''b.tex''), EvReadFile (Knowledge ''b.tex''),
      EvStat (Knowledge ''c.tex''), EvReadFile (Knowledge ''c.tex''), EvCommitBatch] \<and>
   fst (updateIndex sampleExt (sampleWorld\<lparr>marker := None\<rparr>)) = None"
proof -
  have m: "marker (sampleWorld\<lparr>marker := None\<rparr>) = None"
    by simp
  from touch_never_creates_marker [OF m, of sampleExt] have
    "marker (((\<lambda>v. snd (updateIndex sampleExt v)) ^^ 2) (sampleWorld\<lparr>marker := None\<rparr>)) = None"
    by blast
  then have two: "marker (snd (updateIndex sampleExt (snd (updateIndex sampleExt (sampleWorld\<lparr>marker := None\<rparr>))))) = None"
    by (simp add: numeral_2_eq_2)
  from touch_never_creates_marker [OF m, of sampleExt] two show ?thesis
    by (simp add: index_eval)
qed

section \<open>Properties of the search\<close>

lemmas search_eval =
  findScrolls_def searchBleve_def performQuery_def reslice_def appendSlice_def
  loadAndParseScrollContentByID_def translate_eval Stat_def zeroScroll_def emptyResults_def

text \<open>
  C4. The claim: \<^verbatim>\<open>findScrolls\<close> never returns a hit whose source file is missing, and
  the total is the number of hits that still exist. In the sample world the query \<open>a\<close> has
  one hit, \<open>a\<close>, whose file is missing: \<^verbatim>\<open>loadMatchingScrolls\<close> leaves the slice
  \<^verbatim>\<open>nil\<close>, and \<^verbatim>\<open>scrolls[:len(searchResults.Hits)]\<close> panics. With four hits of which
  \<open>a\<close> is missing, and an \<^verbatim>\<open>append\<close> that doubles the capacity, the slice of three
  documents has capacity four: the list returned has four entries, the last an empty
  document, and the total is 4.
\<close>

theorem findScrolls_missing_hit:
  "fst (findScrolls sampleExt ''a'' sampleWorld) = Inl SliceOutOfRange \<and>
   fst (findScrolls sampleExt ''a b c e'' sampleWorld4) =
     Inr (\<lparr>IDs = [\<lparr>ID = ''b'', Type = ''note'', Content = ''B''\<rparr>,
                  \<lparr>ID = ''c'', Type = ''note'', Content = ''C''\<rparr>,
                  \<lparr>ID = ''e'', Type = ''note'', Content = ''E''\<rparr>,
                  \<lparr>ID = [], Type = [], Content = []\<rparr>],
           Total = 4\<rparr>, None)"
  by (simp add: search_eval render_eval sampleWorld4_def Let_def)

text \<open>
  Whenever \<^verbatim>\<open>findScrolls\<close> returns a list, the total is the length of the list: the
  renderer it passes on counts every entry.
\<close>

lemma renderListOfScrolls_value_count:
  "renderListOfScrolls ext (xelatexImagemagick ext) ids \<lparr>error = None\<rparr> w = (Inr n, x, w')
   \<Longrightarrow> n = length ids"
  using renderListOfScrolls_value_counts_all [of ext ids w] by simp

lemma findScrolls_total_is_length:
  "fst (findScrolls ext q w) = Inr (res, None) \<Longrightarrow> Total res = length (IDs res)"
  by (auto simp: findScrolls_def Let_def split: prod.splits sum.splits if_splits
      dest: renderListOfScrolls_value_count)

end
